theory Spec2Isabelle
  imports Main "HOL-Library.Word"
begin

section \<open>Time, durations and errors\<close>

text \<open>
  A Go \<open>time.Duration\<close> is an \<open>int64\<close> count of nanoseconds, so its arithmetic wraps
  around. A \<open>time.Time\<close> is taken as an unbounded count of nanoseconds on one time
  line (the instants of this program are far from the limits of Go's representation),
  with \<open>Add\<close> and \<open>Before\<close> as addition and comparison. A Go \<open>int\<close> is 64 bits wide
  on the build target (\<open>GOARCH=arm64\<close>).

  A Go \<open>error\<close> is represented by its message; \<open>nil\<close> is \<open>None\<close>. Wrapping with
  \<open>%w\<close> appends the message of the wrapped error.
\<close>

type_synonym Time = int
type_synonym Duration = "64 word"
type_synonym goint = "64 word"
type_synonym error = string

definition Nanosecond :: Duration where "Nanosecond = 1"
definition Second :: Duration where "Second = 1000000000 * Nanosecond"
definition Minute :: Duration where "Minute = 60 * Second"
definition Hour :: Duration where "Hour = 60 * Minute"

definition Add :: "Time \<Rightarrow> Duration \<Rightarrow> Time" where
  "Add t d = t + sint d"

definition Before :: "Time \<Rightarrow> Time \<Rightarrow> bool" where
  "Before t u = (t < u)"

text \<open>\<open>%d\<close> of \<open>fmt.Errorf\<close>: the decimal digits of an integer, with a sign when negative.\<close>

fun decimal :: "nat \<Rightarrow> string" where
  "decimal n =
     (if n < 10 then [''0123456789'' ! n]
      else decimal (n div 10) @ [''0123456789'' ! (n mod 10)])"

declare decimal.simps [simp del]

definition fmt_d :: "int \<Rightarrow> string" where
  "fmt_d i = (if i < 0 then CHR ''-'' # decimal (nat (- i)) else decimal (nat i))"

section \<open>The identity provider (STSTokenProvider)\<close>

text \<open>
  The provider keeps its own cached identity token. One call reads the clock for the
  freshness check, may call STS, and reads the clock again when STS sent no expiration.
  What the outside world answers during one call is a record; the STS output has two
  pointer fields, \<open>None\<close> when \<open>nil\<close>.
\<close>

record GetWebIdentityTokenOutput =
  WebIdentityToken :: "string option"
  Expiration :: "Time option"

record STSTokenProvider =
  cachedToken :: string
  tokenExpiry :: Time

record sts_world =
  stsNowCheck :: Time
  stsGetWebIdentityToken :: "error + GetWebIdentityTokenOutput"
  stsNowStore :: Time

definition stsExpiryBuffer :: Duration where
  "stsExpiryBuffer = 30 * Second"

text \<open>
  The result is the Go pair (token, error), the provider after the call, and the number
  of STS requests made.
\<close>

definition GetWebIdentityToken ::
  "STSTokenProvider \<Rightarrow> sts_world \<Rightarrow> (string \<times> error option) \<times> STSTokenProvider \<times> nat" where
  "GetWebIdentityToken p w =
     (if cachedToken p \<noteq> [] \<and> Before (stsNowCheck w) (Add (tokenExpiry p) (- stsExpiryBuffer))
      then ((cachedToken p, None), p, 0)
      else
        (case stsGetWebIdentityToken w of
           Inl err \<Rightarrow> (([], Some (''failed to get web identity token from STS: '' @ err)), p, 1)
         | Inr output \<Rightarrow>
             (case WebIdentityToken output of
                None \<Rightarrow> (([], Some ''STS returned empty token''), p, 1)
              | Some tok \<Rightarrow>
                  if tok = [] then (([], Some ''STS returned empty token''), p, 1)
                  else
                    ((tok, None),
                     p\<lparr>cachedToken := tok,
                       tokenExpiry :=
                         (case Expiration output of
                            Some e \<Rightarrow> e
                          | None \<Rightarrow> Add (stsNowStore w) (5 * Minute))\<rparr>,
                     1))))"

text \<open>The provider as \<open>NewSTSTokenProvider\<close> builds it: nothing cached, the zero time.\<close>

definition newProvider :: STSTokenProvider where
  "newProvider = \<lparr>cachedToken = [], tokenExpiry = 0\<rparr>"

section \<open>Configuration\<close>

record Config =
  Token :: string
  WorkspaceURL :: string
  SPClientID :: string
  ExpiryBuffer :: Duration

definition Validate :: "Config \<Rightarrow> error option" where
  "Validate c =
     (let hasStatic = (Token c \<noteq> []); hasFed = (SPClientID c \<noteq> []) in
      if \<not> hasStatic \<and> \<not> hasFed then Some ''either token or sp_client_id must be configured''
      else if hasStatic \<and> hasFed then Some ''token and sp_client_id are mutually exclusive''
      else if hasFed \<and> WorkspaceURL c = [] then
        Some ''workspace_url is required when sp_client_id is set''
      else None)"

definition expiryBufferOrDefault :: "Config \<Rightarrow> Duration" where
  "expiryBufferOrDefault c = (if 0 <s ExpiryBuffer c then ExpiryBuffer c else 5 * Minute)"

section \<open>The token cache and the exchange\<close>

definition oidcTokenEndpoint :: string where
  "oidcTokenEndpoint = ''/oidc/v1/token''"

definition grantTypeTokenExchange :: string where
  "grantTypeTokenExchange = ''urn:ietf:params:oauth:grant-type:token-exchange''"

definition tokenTypeJWT :: string where
  "tokenTypeJWT = ''urn:ietf:params:oauth:token-type:jwt''"

definition defaultTokenTTL :: Duration where
  "defaultTokenTTL = 1 * Hour"

text \<open>
  \<open>int(defaultTokenTTL.Seconds())\<close>: \<open>Seconds\<close> is a floating-point number, and for one
  hour it is 3600 exactly, so the conversion gives 3600.
\<close>

definition defaultTokenTTLSeconds :: goint where
  "defaultTokenTTLSeconds = 3600"

record tokenExchangeResponse =
  AccessToken :: string
  TokenType :: string
  ExpiresIn :: goint

record tokenExchangeErrorResponse =
  Error :: string
  ErrorDescription :: string

text \<open>
  The fields of \<open>tokenCache\<close> that hold data. The provider, the HTTP client, the lock
  and the singleflight group are the outside world and the schedule: a call is modelled
  as it runs when no other call is in flight, where \<open>sfGroup.Do\<close> runs the function it
  is given and hands back that function's result.
\<close>

record tokenCache =
  workspaceURL :: string
  spClientID :: string
  expiryBuffer :: Duration
  cachedToken :: string
  tokenExpiry :: Time

text \<open>
  What the world answers during one exchange: the provider's pair, the error of
  \<open>http.NewRequestWithContext\<close>, the result of \<open>httpClient.Do\<close>. A response carries
  its status code and what \<open>io.ReadAll\<close> gives; a body is given by what
  \<open>json.Unmarshal\<close> yields on it for each of the two target structs.
\<close>

record body =
  asErrorResponse :: "error + tokenExchangeErrorResponse"
  asTokenResponse :: "error + tokenExchangeResponse"

record Response =
  StatusCode :: int
  ReadAll :: "error + body"

record exchange_world =
  awsGetWebIdentityToken :: "string \<times> error option"
  newRequestErr :: "error option"
  httpDo :: "error + Response"

datatype event =
  ProviderCall
  | HTTPPost string "(string \<times> string) list"

definition StatusOK :: int where
  "StatusOK = 200"

definition formData :: "tokenCache \<Rightarrow> string \<Rightarrow> (string \<times> string) list" where
  "formData c awsToken =
     [(''grant_type'', grantTypeTokenExchange),
      (''subject_token'', awsToken),
      (''subject_token_type'', tokenTypeJWT),
      (''client_id'', spClientID c),
      (''scope'', ''all-apis'')]"

text \<open>
  \<open>exchangeToken\<close> returns the Go triple (token, expiresIn, error) and the calls it made
  to the outside, in order.
\<close>

definition exchangeToken ::
  "tokenCache \<Rightarrow> exchange_world \<Rightarrow> (string \<times> goint \<times> error option) \<times> event list" where
  "exchangeToken c w =
     (case awsGetWebIdentityToken w of
        (_, Some err) \<Rightarrow> (([], 0, Some (''failed to get AWS token: '' @ err)), [ProviderCall])
      | (awsToken, None) \<Rightarrow>
          (let tokenURL = workspaceURL c @ oidcTokenEndpoint in
           case newRequestErr w of
             Some err \<Rightarrow>
               (([], 0, Some (''failed to create token exchange request: '' @ err)),
                [ProviderCall])
           | None \<Rightarrow>
               (let evs = [ProviderCall, HTTPPost tokenURL (formData c awsToken)] in
                case httpDo w of
                  Inl err \<Rightarrow> (([], 0, Some (''token exchange request failed: '' @ err)), evs)
                | Inr resp \<Rightarrow>
                    (case ReadAll resp of
                       Inl err \<Rightarrow>
                         (([], 0, Some (''failed to read token exchange response: '' @ err)), evs)
                     | Inr b \<Rightarrow>
                         if StatusCode resp \<noteq> StatusOK then
                           (case asErrorResponse b of
                              Inr errResp \<Rightarrow>
                                if Error errResp \<noteq> [] then
                                  (([], 0,
                                    Some (''token exchange failed ('' @ Error errResp @ ''): ''
                                          @ ErrorDescription errResp)), evs)
                                else
                                  (([], 0,
                                    Some (''token exchange failed with status ''
                                          @ fmt_d (StatusCode resp))), evs)
                            | Inl _ \<Rightarrow>
                                (([], 0,
                                  Some (''token exchange failed with status ''
                                        @ fmt_d (StatusCode resp))), evs))
                         else
                           (case asTokenResponse b of
                              Inl err \<Rightarrow>
                                (([], 0,
                                  Some (''failed to parse token exchange response: '' @ err)),
                                 evs)
                            | Inr tokenResp \<Rightarrow>
                                if AccessToken tokenResp = [] then
                                  (([], 0,
                                    Some ''token exchange response missing access_token''), evs)
                                else
                                  (let expiresIn =
                                         (if ExpiresIn tokenResp \<le>s 0
                                          then defaultTokenTTLSeconds
                                          else ExpiresIn tokenResp)
                                   in ((AccessToken tokenResp, expiresIn, None), evs)))))))"

text \<open>The freshness test of lines 119 and 130.\<close>

definition usable :: "tokenCache \<Rightarrow> Time \<Rightarrow> bool" where
  "usable c now =
     (cachedToken c \<noteq> [] \<and> Before now (Add (tokenExpiry c) (- expiryBuffer c)))"

text \<open>
  The clock is read up to three times in one call: for the fast path, for the second
  check inside the singleflight function, and when the new expiry is computed.
\<close>

record gettoken_world =
  nowFast :: Time
  nowRecheck :: Time
  nowStore :: Time
  exchange :: exchange_world

text \<open>The fast path: the cached token, or nothing.\<close>

definition fastPath :: "tokenCache \<Rightarrow> Time \<Rightarrow> string option" where
  "fastPath c now = (if usable c now then Some (cachedToken c) else None)"

text \<open>The function handed to \<open>sfGroup.Do\<close>: its pair, the cache after it, its calls.\<close>

definition refresh ::
  "tokenCache \<Rightarrow> gettoken_world \<Rightarrow> (string \<times> error option) \<times> tokenCache \<times> event list" where
  "refresh c w =
     (if usable c (nowRecheck w) then ((cachedToken c, None), c, [])
      else
        (case exchangeToken c (exchange w) of
           ((_, _, Some err), evs) \<Rightarrow> (([], Some err), c, evs)
         | ((token, expiresIn, None), evs) \<Rightarrow>
             (let expiry = Add (nowStore w) (expiresIn * Second) in
              ((token, None), c\<lparr>cachedToken := token, tokenExpiry := expiry\<rparr>, evs))))"

text \<open>
  What \<open>GetToken\<close> does with the pair that \<open>sfGroup.Do\<close> hands back (lines 150 to 153).
  Every caller that shares one execution of the function is handed the same pair.
\<close>

definition afterDo :: "string \<times> error option \<Rightarrow> string \<times> error option" where
  "afterDo r = (case r of (_, Some err) \<Rightarrow> ([], Some err) | (result, None) \<Rightarrow> (result, None))"

definition GetToken ::
  "tokenCache \<Rightarrow> gettoken_world \<Rightarrow> (string \<times> error option) \<times> tokenCache \<times> event list" where
  "GetToken c w =
     (case fastPath c (nowFast w) of
        Some token \<Rightarrow> ((token, None), c, [])
      | None \<Rightarrow> (case refresh c w of (r, c', evs) \<Rightarrow> (afterDo r, c', evs)))"

section \<open>The extension and its round tripper\<close>

record databricksAuthExtension =
  cfg :: Config
  cache :: "tokenCache option"

text \<open>
  \<open>Start\<close> takes the error of \<open>newAWSProvider\<close>, if any. A new cache holds the zero
  values of the cached token and its expiry.
\<close>

definition Start ::
  "databricksAuthExtension \<Rightarrow> error option \<Rightarrow> error option \<times> databricksAuthExtension" where
  "Start e providerErr =
     (if SPClientID (cfg e) = [] then (None, e)
      else
        (case providerErr of
           Some err \<Rightarrow> (Some (''failed to init AWS provider: '' @ err), e)
         | None \<Rightarrow>
             (None,
              e\<lparr>cache :=
                  Some \<lparr>workspaceURL = WorkspaceURL (cfg e),
                        spClientID = SPClientID (cfg e),
                        expiryBuffer = expiryBufferOrDefault (cfg e),
                        cachedToken = [],
                        tokenExpiry = 0\<rparr>\<rparr>)))"

text \<open>
  Requests are objects reached through pointers, and a header is a Go map, which is a
  reference: two requests can share one header map. The store holds the request objects
  and the header maps by address; an address beyond the store stands for \<open>nil\<close>. The
  header field of a request is the address of its map, \<open>None\<close> for the \<open>nil\<close> map.
\<close>

type_synonym addr = nat
type_synonym header_map = "string \<rightharpoonup> string list"

record Request =
  Method :: string
  URL :: string
  Header :: "addr option"

record store =
  requests :: "Request list"
  headers :: "header_map list"

text \<open>
  \<open>Request.Clone\<close> of \<open>net/http\<close>: a new request object, a copy of the original, whose
  header is a new map with the entries of the original's (\<open>nil\<close> stays \<open>nil\<close>).
\<close>

definition Clone :: "store \<Rightarrow> addr \<Rightarrow> store \<times> addr" where
  "Clone h p =
     (let r = requests h ! p in
      case Header r of
        None \<Rightarrow> (h\<lparr>requests := requests h @ [r]\<rparr>, length (requests h))
      | Some q \<Rightarrow>
          (h\<lparr>headers := headers h @ [headers h ! q],
             requests := requests h @ [r\<lparr>Header := Some (length (headers h))\<rparr>]\<rparr>,
           length (requests h)))"

text \<open>
  \<open>Header.Set\<close> on the header of the request at an address: the entry of the key becomes
  the single value. Writing to the \<open>nil\<close> map panics: \<open>None\<close>. The key
  \<open>Authorization\<close> is already in canonical form.
\<close>

definition Header_Set :: "store \<Rightarrow> addr \<Rightarrow> string \<Rightarrow> string \<Rightarrow> store option" where
  "Header_Set h p key v =
     (case Header (requests h ! p) of
        None \<Rightarrow> None
      | Some q \<Rightarrow> Some (h\<lparr>headers := (headers h)[q := (headers h ! q)(key \<mapsto> [v])]\<rparr>))"

text \<open>
  The base round tripper is any function of the store and the request it is handed. It
  returns the store after it and the Go pair (response, error).
\<close>

type_synonym 'resp roundTripper = "store \<Rightarrow> addr \<Rightarrow> store \<times> ('resp option \<times> error option)"

text \<open>
  Lines 55 to 64 of \<open>RoundTrip\<close>: the token, from the cache or from the configuration.
\<close>

definition obtainToken ::
  "databricksAuthExtension \<Rightarrow> gettoken_world \<Rightarrow>
   (string \<times> error option) \<times> databricksAuthExtension \<times> event list" where
  "obtainToken e w =
     (case cache e of
        Some c \<Rightarrow> (case GetToken c w of (r, c', evs) \<Rightarrow> (r, e\<lparr>cache := Some c'\<rparr>, evs))
      | None \<Rightarrow> ((Token (cfg e), None), e, []))"

text \<open>
  \<open>RoundTrip\<close>: the outer \<open>None\<close> is a panic (a \<open>nil\<close> request, or a request whose
  header map is \<open>nil\<close>); otherwise the Go pair (response, error), with the extension and
  the store after the call and the calls made for the token.
\<close>

definition RoundTrip ::
  "'resp roundTripper \<Rightarrow> databricksAuthExtension \<Rightarrow> gettoken_world \<Rightarrow> store \<Rightarrow> addr \<Rightarrow>
   ('resp option \<times> error option) option \<times> databricksAuthExtension \<times> store \<times> event list" where
  "RoundTrip base e w h req =
     (if length (requests h) \<le> req then (None, e, h, [])
      else
        (case obtainToken e w of
           ((_, Some err), e', evs) \<Rightarrow> (Some (None, Some err), e', h, evs)
         | ((token, None), e', evs) \<Rightarrow>
             (case Clone h req of
                (h1, r) \<Rightarrow>
                  (case Header_Set h1 r ''Authorization'' (''Bearer '' @ token) of
                     None \<Rightarrow> (None, e', h1, evs)
                   | Some h2 \<Rightarrow>
                       (case base h2 r of (h3, res) \<Rightarrow> (Some res, e', h3, evs))))))"

text \<open>
  What \<open>net/http\<close> asks of a round tripper, as far as other objects are concerned: it
  removes nothing from the store and changes no request and no header map other than
  the request it is handed and that request's header map.
\<close>

definition keepsOthers :: "'resp roundTripper \<Rightarrow> bool" where
  "keepsOthers base =
     (\<forall>h r.
        length (requests h) \<le> length (requests (fst (base h r))) \<and>
        length (headers h) \<le> length (headers (fst (base h r))) \<and>
        (\<forall>p < length (requests h). p \<noteq> r \<longrightarrow>
           requests (fst (base h r)) ! p = requests h ! p) \<and>
        (\<forall>q < length (headers h). Header (requests h ! r) \<noteq> Some q \<longrightarrow>
           headers (fst (base h r)) ! q = headers h ! q))"

section \<open>Fixtures\<close>

text \<open>
  The caches, servers and clocks of the repository's tests, used to run the model on
  concrete inputs: \<open>newTestTokenCache\<close>, a mock OIDC server answering one status and
  body, a clock that stands still during a call, and a token written into the cache
  directly.
\<close>

definition newTestTokenCache :: "string \<Rightarrow> tokenCache" where
  "newTestTokenCache url =
     \<lparr>workspaceURL = url, spClientID = ''test-client-id'', expiryBuffer = 5 * Minute,
      cachedToken = [], tokenExpiry = 0\<rparr>"

definition tokenBody :: "string \<Rightarrow> goint \<Rightarrow> body" where
  "tokenBody accessToken expiresIn =
     \<lparr>asErrorResponse = Inr \<lparr>Error = [], ErrorDescription = []\<rparr>,
      asTokenResponse =
        Inr \<lparr>AccessToken = accessToken, TokenType = ''Bearer'', ExpiresIn = expiresIn\<rparr>\<rparr>"

definition errorBody :: "string \<Rightarrow> string \<Rightarrow> body" where
  "errorBody e d =
     \<lparr>asErrorResponse = Inr \<lparr>Error = e, ErrorDescription = d\<rparr>,
      asTokenResponse = Inr \<lparr>AccessToken = [], TokenType = [], ExpiresIn = 0\<rparr>\<rparr>"

definition notJSON :: body where
  "notJSON =
     \<lparr>asErrorResponse = Inl ''invalid character'', asTokenResponse = Inl ''invalid character''\<rparr>"

definition mockServer :: "int \<Rightarrow> body \<Rightarrow> exchange_world" where
  "mockServer code b =
     \<lparr>awsGetWebIdentityToken = (''aws-token'', None), newRequestErr = None,
      httpDo = Inr \<lparr>StatusCode = code, ReadAll = Inr b\<rparr>\<rparr>"

definition at :: "Time \<Rightarrow> exchange_world \<Rightarrow> gettoken_world" where
  "at now x = \<lparr>nowFast = now, nowRecheck = now, nowStore = now, exchange = x\<rparr>"

definition inject :: "tokenCache \<Rightarrow> string \<Rightarrow> Time \<Rightarrow> tokenCache" where
  "inject c tok expiry = c\<lparr>cachedToken := tok, tokenExpiry := expiry\<rparr>"

text \<open>
  For the round tripper: a backend that answers 200 and touches nothing, an extension in
  static mode and one in federation mode, and a store holding one request with one
  header of its own.
\<close>

definition backend :: "int roundTripper" where
  "backend h r = (h, (Some 200, None))"

definition staticExt :: "string \<Rightarrow> databricksAuthExtension" where
  "staticExt tok =
     \<lparr>cfg = \<lparr>Token = tok, WorkspaceURL = [], SPClientID = [], ExpiryBuffer = 0\<rparr>, cache = None\<rparr>"

definition fedExt :: "tokenCache \<Rightarrow> databricksAuthExtension" where
  "fedExt c =
     \<lparr>cfg = \<lparr>Token = [], WorkspaceURL = workspaceURL c, SPClientID = spClientID c,
             ExpiryBuffer = expiryBuffer c\<rparr>,
      cache = Some c\<rparr>"

definition origStore :: store where
  "origStore =
     \<lparr>requests = [\<lparr>Method = ''GET'', URL = ''http://backend'', Header = Some 0\<rparr>],
      headers = [[''X-Custom'' \<mapsto> [''original'']]]\<rparr>"

section \<open>Facts about durations and freshness\<close>

lemmas fixture_defs =
  newTestTokenCache_def tokenBody_def errorBody_def notJSON_def mockServer_def at_def inject_def
  Minute_def Second_def Nanosecond_def Hour_def

lemmas run_defs =
  GetToken_def fastPath_def refresh_def afterDo_def usable_def Before_def Add_def
  exchangeToken_def StatusOK_def Let_def

lemma sint_neg_nonneg: "0 \<le>s (b::64 word) \<Longrightarrow> sint (- b) = - sint b"
proof -
  assume a: "0 \<le>s b"
  then have nn: "0 \<le> sint b" by (simp add: word_sle_eq)
  have lt: "sint b < 2 ^ 63" using sint_lt [of b] by simp
  have "sint (- b) = signed_take_bit 63 (- sint b)"
    by (simp add: sint_word_ariths)
  also have "\<dots> = - sint b"
    using nn lt by (intro signed_take_bit_int_eq_self) auto
  finally show ?thesis .
qed

lemma usable_iff:
  "0 \<le>s expiryBuffer c \<Longrightarrow>
   usable c now \<longleftrightarrow> cachedToken c \<noteq> [] \<and> now < tokenExpiry c - sint (expiryBuffer c)"
  by (simp add: usable_def Before_def Add_def sint_neg_nonneg)

lemma usable_mono:
  assumes "0 \<le>s expiryBuffer c" "\<not> usable c now" "now \<le> now'"
  shows "\<not> usable c now'"
  using assms by (auto simp: usable_iff)

lemma expired_not_usable:
  assumes "0 \<le>s expiryBuffer c" "tokenExpiry c \<le> now"
  shows "\<not> usable c now"
proof -
  have "0 \<le> sint (expiryBuffer c)" using assms(1) by (simp add: word_sle_eq)
  then show ?thesis using assms by (auto simp: usable_iff)
qed

lemma exchangeToken_events_nonempty: "snd (exchangeToken c x) \<noteq> []"
  by (auto simp: exchangeToken_def Let_def split: prod.splits option.splits sum.splits)

lemma exchangeToken_events_hd: "hd (snd (exchangeToken c x)) = ProviderCall"
  by (auto simp: exchangeToken_def Let_def split: prod.splits option.splits sum.splits)

lemma exchangeToken_ok_nonempty:
  "exchangeToken c x = ((tok, n, None), evs) \<Longrightarrow> tok \<noteq> []"
  by (auto simp: exchangeToken_def Let_def split: prod.splits option.splits sum.splits if_splits)

lemma exchangeToken_err_empty:
  "exchangeToken c x = ((tok, n, Some err), evs) \<Longrightarrow> tok = [] \<and> n = 0"
  by (auto simp: exchangeToken_def Let_def split: prod.splits option.splits sum.splits if_splits)

lemma exchangeToken_cachedToken_irrelevant:
  "exchangeToken (c\<lparr>cachedToken := s\<rparr>) x = exchangeToken c x"
  by (simp add: exchangeToken_def formData_def Let_def
        split: prod.splits option.splits sum.splits)

lemma GetToken_slow:
  "\<not> usable c (nowFast w) \<Longrightarrow> \<not> usable c (nowRecheck w) \<Longrightarrow>
   GetToken c w =
     (case exchangeToken c (exchange w) of
        ((_, _, Some err), evs) \<Rightarrow> (([], Some err), c, evs)
      | ((token, expiresIn, None), evs) \<Rightarrow>
          ((token, None),
           c\<lparr>cachedToken := token, tokenExpiry := Add (nowStore w) (expiresIn * Second)\<rparr>, evs))"
  by (auto simp: GetToken_def fastPath_def refresh_def afterDo_def Let_def
           split: prod.splits option.splits)


lemma exchangeToken_succeeds_iff:
  "snd (snd (fst (exchangeToken c x))) = None \<longleftrightarrow>
   (\<exists>awsToken resp b tokenResp.
      awsGetWebIdentityToken x = (awsToken, None) \<and> newRequestErr x = None \<and>
      httpDo x = Inr resp \<and> ReadAll resp = Inr b \<and> StatusCode resp = StatusOK \<and>
      asTokenResponse b = Inr tokenResp \<and> AccessToken tokenResp \<noteq> [])"
  by (auto simp: exchangeToken_def Let_def split: prod.splits option.splits sum.splits)

text \<open>
  The cache that \<open>Start\<close> builds has a refresh buffer above zero and no token: the
  invariant under which the freshness rule reads \<open>now < expiresAt - expiryBuffer\<close>.
\<close>

lemma Start_buffer_positive:
  assumes "Start e providerErr = (None, e')" and "cache e = None" and "cache e' = Some c"
  shows "0 <s expiryBuffer c \<and> 0 \<le>s expiryBuffer c \<and> cachedToken c = []"
proof -
  have m: "(0 :: 64 word) <s 5 * Minute"
    by (simp add: Minute_def Second_def Nanosecond_def word_sless_alt)
  have "expiryBuffer c = expiryBufferOrDefault (cfg e) \<and> cachedToken c = []"
    using assms by (auto simp: Start_def split: if_splits option.splits)
  moreover have "0 <s expiryBufferOrDefault (cfg e)"
    using m by (simp add: expiryBufferOrDefault_def)
  ultimately show ?thesis
    by (simp add: word_sless_alt word_sle_eq)
qed

section \<open>The fast path\<close>

text \<open>
  Claim C2. With a refresh buffer that is not negative (the cache's invariant, which
  \<open>expiryBufferOrDefault\<close> establishes), \<open>GetToken\<close> answers from the fast path exactly
  when the cached value is non-empty and \<open>now < expiresAt - expiryBuffer\<close>; it then
  returns the cached value, leaves the cache as it is and makes no call to the outside.
  Otherwise the fast path returns nothing and the call goes on to the refresh function;
  once \<open>expiresAt - expiryBuffer \<le> now\<close>, on a clock that does not run backwards, the
  exchange is attempted.
\<close>

theorem GetToken_fast_path_iff:
  assumes "0 \<le>s expiryBuffer c"
  shows "(fastPath c (nowFast w) = Some (cachedToken c) \<longleftrightarrow>
            cachedToken c \<noteq> [] \<and> nowFast w < tokenExpiry c - sint (expiryBuffer c))
       \<and> (cachedToken c \<noteq> [] \<and> nowFast w < tokenExpiry c - sint (expiryBuffer c) \<longrightarrow>
            GetToken c w = ((cachedToken c, None), c, []))
       \<and> (\<not> (cachedToken c \<noteq> [] \<and> nowFast w < tokenExpiry c - sint (expiryBuffer c)) \<longrightarrow>
            fastPath c (nowFast w) = None \<and>
            GetToken c w = (case refresh c w of (r, c', evs) \<Rightarrow> (afterDo r, c', evs)))
       \<and> (tokenExpiry c - sint (expiryBuffer c) \<le> nowFast w \<and> nowFast w \<le> nowRecheck w \<longrightarrow>
            snd (snd (GetToken c w)) = snd (exchangeToken c (exchange w)) \<and>
            snd (snd (GetToken c w)) \<noteq> [])"
proof -
  let ?fresh = "cachedToken c \<noteq> [] \<and> nowFast w < tokenExpiry c - sint (expiryBuffer c)"
  have u: "usable c (nowFast w) \<longleftrightarrow> ?fresh"
    using assms by (rule usable_iff)
  have a: "fastPath c (nowFast w) = Some (cachedToken c) \<longleftrightarrow> ?fresh"
    using u by (simp add: fastPath_def)
  have b: "?fresh \<longrightarrow> GetToken c w = ((cachedToken c, None), c, [])"
    using u by (simp add: GetToken_def fastPath_def)
  have c: "\<not> ?fresh \<longrightarrow> fastPath c (nowFast w) = None \<and>
            GetToken c w = (case refresh c w of (r, c', evs) \<Rightarrow> (afterDo r, c', evs))"
    using u by (simp add: GetToken_def fastPath_def)
  have d: "snd (snd (GetToken c w)) = snd (exchangeToken c (exchange w)) \<and>
           snd (snd (GetToken c w)) \<noteq> []"
    if late: "tokenExpiry c - sint (expiryBuffer c) \<le> nowFast w" and mono: "nowFast w \<le> nowRecheck w"
  proof -
    have n1: "\<not> usable c (nowFast w)" using u late by auto
    have n2: "\<not> usable c (nowRecheck w)" using assms n1 mono by (rule usable_mono)
    have "snd (snd (GetToken c w)) = snd (exchangeToken c (exchange w))"
      by (simp add: GetToken_slow [OF n1 n2] split: prod.splits option.splits)
    then show ?thesis by (simp add: exchangeToken_events_nonempty)
  qed
  from a b c d show ?thesis by blast
qed

theorem GetToken_fast_path_iff_witness:
  "0 \<le>s expiryBuffer (inject (newTestTokenCache ''https://adb'') ''tok'' 1000000000000)
   \<and> GetToken (inject (newTestTokenCache ''https://adb'') ''tok'' 1000000000000)
        (at 0 (mockServer 200 (tokenBody ''new'' 3600)))
       = ((''tok'', None), inject (newTestTokenCache ''https://adb'') ''tok'' 1000000000000, [])
   \<and> fastPath (inject (newTestTokenCache ''https://adb'') ''tok'' 1000000000000) 800000000000 = None
   \<and> snd (snd (GetToken (inject (newTestTokenCache ''https://adb'') ''tok'' 1000000000000)
        (at 800000000000 (mockServer 200 (tokenBody ''new'' 3600))))) \<noteq> []"
proof -
  let ?c = "inject (newTestTokenCache ''https://adb'') ''tok'' 1000000000000"
  let ?w1 = "at 0 (mockServer 200 (tokenBody ''new'' 3600))"
  let ?w2 = "at 800000000000 (mockServer 200 (tokenBody ''new'' 3600))"
  have b: "0 \<le>s expiryBuffer ?c"
    by (simp add: fixture_defs word_sle_eq)
  have fresh: "cachedToken ?c \<noteq> [] \<and> nowFast ?w1 < tokenExpiry ?c - sint (expiryBuffer ?c)"
    by (simp add: fixture_defs)
  have stale: "\<not> (cachedToken ?c \<noteq> [] \<and> nowFast ?w2 < tokenExpiry ?c - sint (expiryBuffer ?c))"
    by (simp add: fixture_defs)
  have late: "tokenExpiry ?c - sint (expiryBuffer ?c) \<le> nowFast ?w2 \<and> nowFast ?w2 \<le> nowRecheck ?w2"
    by (simp add: fixture_defs)
  from GetToken_fast_path_iff [OF b, of ?w1] fresh
  have 1: "GetToken ?c ?w1 = ((cachedToken ?c, None), ?c, [])" by blast
  from GetToken_fast_path_iff [OF b, of ?w2] stale late
  have 2: "fastPath ?c (nowFast ?w2) = None \<and> snd (snd (GetToken ?c ?w2)) \<noteq> []" by blast
  have ct: "cachedToken ?c = ''tok''" and nf: "nowFast ?w2 = 800000000000"
    by (simp_all add: fixture_defs)
  from b 1 2 show ?thesis unfolding ct nf by blast
qed

section \<open>Expired credentials\<close>

text \<open>
  Claim C3. When the cached credential's \<open>expiresAt\<close> is not after the current instant
  (whatever the cached value is, also one written into the cache directly), the next
  \<open>GetToken\<close> does not answer from the fast path and performs an exchange: its calls to
  the outside are those of \<open>exchangeToken\<close>, beginning with the identity provider, its
  result is the exchange's result, and that result is the same whatever the cached value
  was.
\<close>

theorem GetToken_expired_never_served:
  assumes "0 \<le>s expiryBuffer c" and "tokenExpiry c \<le> nowFast w" and "nowFast w \<le> nowRecheck w"
  shows "fastPath c (nowFast w) = None
       \<and> snd (snd (GetToken c w)) = snd (exchangeToken c (exchange w))
       \<and> snd (snd (GetToken c w)) \<noteq> [] \<and> hd (snd (snd (GetToken c w))) = ProviderCall
       \<and> fst (GetToken c w) =
           (case fst (exchangeToken c (exchange w)) of
              (_, _, Some err) \<Rightarrow> ([], Some err)
            | (token, _, None) \<Rightarrow> (token, None))
       \<and> (\<forall>stale. fst (GetToken (c\<lparr>cachedToken := stale\<rparr>) w) = fst (GetToken c w))"
proof -
  have n1: "\<not> usable c (nowFast w)"
    using assms(1,2) by (rule expired_not_usable)
  have n2: "\<not> usable c (nowRecheck w)"
    using assms(1) n1 assms(3) by (rule usable_mono)
  have ev: "snd (snd (GetToken c w)) = snd (exchangeToken c (exchange w))"
    by (simp add: GetToken_slow [OF n1 n2] split: prod.splits option.splits)
  have res: "fst (GetToken c w) =
           (case fst (exchangeToken c (exchange w)) of
              (_, _, Some err) \<Rightarrow> ([], Some err)
            | (token, _, None) \<Rightarrow> (token, None))"
    by (simp add: GetToken_slow [OF n1 n2] split: prod.splits option.splits)
  have indep: "fst (GetToken (c\<lparr>cachedToken := stale\<rparr>) w) = fst (GetToken c w)" for stale
  proof -
    let ?c = "c\<lparr>cachedToken := stale\<rparr>"
    have b: "0 \<le>s expiryBuffer ?c" using assms(1) by simp
    have e: "tokenExpiry ?c \<le> nowFast w" using assms(2) by simp
    have m1: "\<not> usable ?c (nowFast w)" using b e by (rule expired_not_usable)
    have m2: "\<not> usable ?c (nowRecheck w)" using b m1 assms(3) by (rule usable_mono)
    show ?thesis
      by (simp add: GetToken_slow [OF n1 n2] GetToken_slow [OF m1 m2]
            exchangeToken_cachedToken_irrelevant split: prod.splits option.splits)
  qed
  have fp: "fastPath c (nowFast w) = None" using n1 by (simp add: fastPath_def)
  from fp ev res indep show ?thesis
    by (simp add: exchangeToken_events_nonempty exchangeToken_events_hd)
qed


theorem GetToken_expired_never_served_witness:
  "0 \<le>s expiryBuffer (inject (newTestTokenCache ''https://adb'') ''expired-DO-NOT-USE'' 0)
   \<and> tokenExpiry (inject (newTestTokenCache ''https://adb'') ''expired-DO-NOT-USE'' 0) \<le> 3600000000000
   \<and> fst (GetToken (inject (newTestTokenCache ''https://adb'') ''expired-DO-NOT-USE'' 0)
        (at 3600000000000 (mockServer 200 (tokenBody ''fresh-token'' 3600))))
       = (''fresh-token'', None)
   \<and> snd (snd (GetToken (inject (newTestTokenCache ''https://adb'') ''expired-DO-NOT-USE'' 0)
        (at 3600000000000 (mockServer 200 (tokenBody ''fresh-token'' 3600)))))
       = [ProviderCall,
          HTTPPost ''https://adb/oidc/v1/token''
            (formData (newTestTokenCache ''https://adb'') ''aws-token'')]"
  using GetToken_expired_never_served
          [of "inject (newTestTokenCache ''https://adb'') ''expired-DO-NOT-USE'' 0"
              "at 3600000000000 (mockServer 200 (tokenBody ''fresh-token'' 3600))"]
  by (simp add: fixture_defs word_sle_eq exchangeToken_def StatusOK_def formData_def
        oidcTokenEndpoint_def)

section \<open>Failed refreshes\<close>

text \<open>
  Claim C4. \<open>exchangeToken\<close> fails in every world but the one where the provider, the
  request, the transport and the read succeed, the status is 200 and the body decodes
  to a non-empty access token. Whenever \<open>GetToken\<close> returns an error, it returns the
  empty token with it, the error is the one of \<open>exchangeToken\<close>, and the cache (value and
  expiry) is what it was before the call. When the refresh is attempted and fails, that
  error is the pair the singleflight function hands back, and each caller that is handed
  this pair returns the empty token and the error.
\<close>

theorem GetToken_failure_keeps_cache:
  "(\<forall>err. snd (fst (GetToken c w)) = Some err \<longrightarrow>
       fst (snd (GetToken c w)) = c \<and> fst (fst (GetToken c w)) = [] \<and>
       snd (snd (fst (exchangeToken c (exchange w)))) = Some err)
   \<and> (\<forall>err. \<not> usable c (nowFast w) \<and> \<not> usable c (nowRecheck w) \<and>
         snd (snd (fst (exchangeToken c (exchange w)))) = Some err \<longrightarrow>
       GetToken c w = (([], Some err), c, snd (exchangeToken c (exchange w))) \<and>
       afterDo (fst (refresh c w)) = ([], Some err))
   \<and> (snd (snd (fst (exchangeToken c (exchange w)))) \<noteq> None \<longleftrightarrow>
       \<not> (\<exists>awsToken resp b tokenResp.
            awsGetWebIdentityToken (exchange w) = (awsToken, None) \<and>
            newRequestErr (exchange w) = None \<and>
            httpDo (exchange w) = Inr resp \<and> ReadAll resp = Inr b \<and>
            StatusCode resp = StatusOK \<and>
            asTokenResponse b = Inr tokenResp \<and> AccessToken tokenResp \<noteq> []))"
proof -
  obtain tok n e evs where x: "exchangeToken c (exchange w) = ((tok, n, e), evs)"
    by (metis prod.exhaust)
  have a: "fst (snd (GetToken c w)) = c \<and> fst (fst (GetToken c w)) = [] \<and>
       snd (snd (fst (exchangeToken c (exchange w)))) = Some err"
    if "snd (fst (GetToken c w)) = Some err" for err
    using that x
    by (auto simp: GetToken_def fastPath_def refresh_def afterDo_def Let_def
          split: if_splits option.splits prod.splits)
  have b: "GetToken c w = (([], Some err), c, snd (exchangeToken c (exchange w))) \<and>
       afterDo (fst (refresh c w)) = ([], Some err)"
    if "\<not> usable c (nowFast w) \<and> \<not> usable c (nowRecheck w) \<and>
         snd (snd (fst (exchangeToken c (exchange w)))) = Some err" for err
    using that x
    by (auto simp: GetToken_def fastPath_def refresh_def afterDo_def Let_def
          split: if_splits option.splits prod.splits)
  have A: "\<forall>err. snd (fst (GetToken c w)) = Some err \<longrightarrow>
       fst (snd (GetToken c w)) = c \<and> fst (fst (GetToken c w)) = [] \<and>
       snd (snd (fst (exchangeToken c (exchange w)))) = Some err"
    using a by blast
  have B: "\<forall>err. \<not> usable c (nowFast w) \<and> \<not> usable c (nowRecheck w) \<and>
         snd (snd (fst (exchangeToken c (exchange w)))) = Some err \<longrightarrow>
       GetToken c w = (([], Some err), c, snd (exchangeToken c (exchange w))) \<and>
       afterDo (fst (refresh c w)) = ([], Some err)"
    using b by blast
  have C: "snd (snd (fst (exchangeToken c (exchange w)))) \<noteq> None \<longleftrightarrow>
       \<not> (\<exists>awsToken resp b tokenResp.
            awsGetWebIdentityToken (exchange w) = (awsToken, None) \<and>
            newRequestErr (exchange w) = None \<and>
            httpDo (exchange w) = Inr resp \<and> ReadAll resp = Inr b \<and>
            StatusCode resp = StatusOK \<and>
            asTokenResponse b = Inr tokenResp \<and> AccessToken tokenResp \<noteq> [])"
    by (simp only: exchangeToken_succeeds_iff [of c "exchange w"])
  show ?thesis
    by (rule conjI [OF A conjI [OF B C]])
qed

theorem GetToken_failure_keeps_cache_witness:
  "GetToken (inject (newTestTokenCache ''https://adb'') ''stale'' 0)
     (at 3600000000000 (mockServer 401 (errorBody ''invalid_client'' ''bad credentials'')))
   = (([], Some ''token exchange failed (invalid_client): bad credentials''),
      inject (newTestTokenCache ''https://adb'') ''stale'' 0,
      snd (exchangeToken (inject (newTestTokenCache ''https://adb'') ''stale'' 0)
             (mockServer 401 (errorBody ''invalid_client'' ''bad credentials''))))"
proof -
  let ?c = "inject (newTestTokenCache ''https://adb'') ''stale'' 0"
  let ?x = "mockServer 401 (errorBody ''invalid_client'' ''bad credentials'')"
  let ?w = "at 3600000000000 ?x"
  have pre: "\<not> usable ?c (nowFast ?w) \<and> \<not> usable ?c (nowRecheck ?w) \<and>
     snd (snd (fst (exchangeToken ?c (exchange ?w))))
       = Some ''token exchange failed (invalid_client): bad credentials''"
    by (simp add: run_defs fixture_defs)
  have ex: "exchange ?w = ?x" by (simp add: at_def)
  from GetToken_failure_keeps_cache [of ?c ?w] pre
  have "GetToken ?c ?w =
      (([], Some ''token exchange failed (invalid_client): bad credentials''), ?c,
       snd (exchangeToken ?c (exchange ?w)))"
    by blast
  then show ?thesis unfolding ex .
qed

text \<open>
  Claim C5. When the response was read and its status is not 200: if the body decodes as
  an error response whose \<open>error\<close> field is non-empty, \<open>exchangeToken\<close> fails with the
  message built from \<open>error\<close> and \<open>error_description\<close>; otherwise (the body does not
  decode, or its \<open>error\<close> field is empty) it fails with the message that carries the
  status code in decimal.
\<close>

theorem exchangeToken_non_success_status:
  assumes "awsGetWebIdentityToken x = (awsToken, None)" and "newRequestErr x = None"
    and "httpDo x = Inr resp" and "ReadAll resp = Inr b" and "StatusCode resp \<noteq> StatusOK"
  shows "fst (exchangeToken c x) =
           ([], 0,
            Some (case asErrorResponse b of
                    Inr errResp \<Rightarrow>
                      if Error errResp \<noteq> []
                      then ''token exchange failed ('' @ Error errResp @ ''): ''
                           @ ErrorDescription errResp
                      else ''token exchange failed with status '' @ fmt_d (StatusCode resp)
                  | Inl _ \<Rightarrow> ''token exchange failed with status '' @ fmt_d (StatusCode resp)))"
  using assms by (simp add: exchangeToken_def Let_def split: sum.splits)

theorem exchangeToken_non_success_status_witness:
  "fst (exchangeToken (newTestTokenCache ''https://adb'')
          (mockServer 401 (errorBody ''invalid_client'' ''bad credentials'')))
     = ([], 0, Some ''token exchange failed (invalid_client): bad credentials'')
   \<and> fst (exchangeToken (newTestTokenCache ''https://adb'') (mockServer 429 notJSON))
     = ([], 0, Some ''token exchange failed with status 429'')
   \<and> fst (exchangeToken (newTestTokenCache ''https://adb'')
          (mockServer 500 (errorBody [] ''no error code'')))
     = ([], 0, Some ''token exchange failed with status 500'')"
  using exchangeToken_non_success_status
          [of "mockServer 401 (errorBody ''invalid_client'' ''bad credentials'')" "''aws-token''"
              "\<lparr>StatusCode = 401, ReadAll = Inr (errorBody ''invalid_client'' ''bad credentials'')\<rparr>"
              "errorBody ''invalid_client'' ''bad credentials''" "newTestTokenCache ''https://adb''"]
        exchangeToken_non_success_status
          [of "mockServer 429 notJSON" "''aws-token''"
              "\<lparr>StatusCode = 429, ReadAll = Inr notJSON\<rparr>"
              "notJSON" "newTestTokenCache ''https://adb''"]
        exchangeToken_non_success_status
          [of "mockServer 500 (errorBody [] ''no error code'')" "''aws-token''"
              "\<lparr>StatusCode = 500, ReadAll = Inr (errorBody [] ''no error code'')\<rparr>"
              "errorBody [] ''no error code''" "newTestTokenCache ''https://adb''"]
  by (simp add: mockServer_def errorBody_def notJSON_def StatusOK_def fmt_d_def decimal.simps)

text \<open>
  Claim C6. When the response was read and its body does not decode, or decodes with an
  empty access token, \<open>exchangeToken\<close> fails whatever the status; on status 200 it
  fails with a message of its own for each of the two. \<open>GetToken\<close> then leaves the cache
  as it was and, when the refresh was attempted, returns the empty token and that error.
\<close>

theorem exchangeToken_invalid_success_body:
  assumes "awsGetWebIdentityToken (exchange w) = (awsToken, None)"
    and "newRequestErr (exchange w) = None"
    and "httpDo (exchange w) = Inr resp" and "ReadAll resp = Inr b"
    and "(\<exists>err. asTokenResponse b = Inl err) \<or>
         (\<exists>tokenResp. asTokenResponse b = Inr tokenResp \<and> AccessToken tokenResp = [])"
  shows "snd (snd (fst (exchangeToken c (exchange w)))) \<noteq> None
       \<and> (StatusCode resp = StatusOK \<longrightarrow>
            fst (exchangeToken c (exchange w)) =
              ([], 0,
               Some (case asTokenResponse b of
                       Inl err \<Rightarrow> ''failed to parse token exchange response: '' @ err
                     | Inr _ \<Rightarrow> ''token exchange response missing access_token'')))
       \<and> fst (snd (GetToken c w)) = c
       \<and> (\<not> usable c (nowFast w) \<and> \<not> usable c (nowRecheck w) \<longrightarrow>
            fst (GetToken c w) = ([], snd (snd (fst (exchangeToken c (exchange w))))))"
proof -
  have f: "snd (snd (fst (exchangeToken c (exchange w)))) \<noteq> None"
    using assms by (auto simp: exchangeToken_succeeds_iff)
  then obtain tok n err evs where x: "exchangeToken c (exchange w) = ((tok, n, Some err), evs)"
    by (metis prod.collapse option.exhaust)
  have m: "fst (exchangeToken c (exchange w)) =
              ([], 0,
               Some (case asTokenResponse b of
                       Inl err \<Rightarrow> ''failed to parse token exchange response: '' @ err
                     | Inr _ \<Rightarrow> ''token exchange response missing access_token''))"
    if "StatusCode resp = StatusOK"
    using assms that by (auto simp: exchangeToken_def Let_def split: sum.splits)
  have g: "fst (snd (GetToken c w)) = c"
    using x
    by (auto simp: GetToken_def fastPath_def refresh_def afterDo_def Let_def split: if_splits)
  have s: "\<not> usable c (nowFast w) \<and> \<not> usable c (nowRecheck w) \<longrightarrow>
            fst (GetToken c w) = ([], snd (snd (fst (exchangeToken c (exchange w)))))"
    using x by (simp add: GetToken_slow)
  from f m g s show ?thesis by blast
qed


theorem exchangeToken_invalid_success_body_witness:
  "fst (GetToken (inject (newTestTokenCache ''https://adb'') ''stale'' 0)
          (at 3600000000000 (mockServer 200 notJSON)))
     = ([], Some ''failed to parse token exchange response: invalid character'')
   \<and> fst (snd (GetToken (inject (newTestTokenCache ''https://adb'') ''stale'' 0)
          (at 3600000000000 (mockServer 200 notJSON))))
     = inject (newTestTokenCache ''https://adb'') ''stale'' 0
   \<and> fst (GetToken (inject (newTestTokenCache ''https://adb'') ''stale'' 0)
          (at 3600000000000 (mockServer 200 (tokenBody [] 3600))))
     = ([], Some ''token exchange response missing access_token'')
   \<and> fst (snd (GetToken (inject (newTestTokenCache ''https://adb'') ''stale'' 0)
          (at 3600000000000 (mockServer 200 (tokenBody [] 3600)))))
     = inject (newTestTokenCache ''https://adb'') ''stale'' 0
   \<and> snd (snd (fst (exchangeToken (newTestTokenCache ''https://adb'')
          (mockServer 201 (tokenBody [] 3600))))) \<noteq> None"
proof -
  let ?c = "inject (newTestTokenCache ''https://adb'') ''stale'' 0"
  let ?d = "newTestTokenCache ''https://adb''"
  let ?w1 = "at 3600000000000 (mockServer 200 notJSON)"
  let ?w2 = "at 3600000000000 (mockServer 200 (tokenBody [] 3600))"
  let ?w3 = "at 3600000000000 (mockServer 201 (tokenBody [] 3600))"
  have n1: "\<not> usable ?c (nowFast ?w1) \<and> \<not> usable ?c (nowRecheck ?w1)"
    and n2: "\<not> usable ?c (nowFast ?w2) \<and> \<not> usable ?c (nowRecheck ?w2)"
    by (simp_all add: run_defs fixture_defs)
  have 1: "fst (GetToken ?c ?w1) =
             ([], Some (case asTokenResponse notJSON of
                    Inl err \<Rightarrow> ''failed to parse token exchange response: '' @ err
                  | Inr _ \<Rightarrow> ''token exchange response missing access_token''))
           \<and> fst (snd (GetToken ?c ?w1)) = ?c"
    using n1 exchangeToken_invalid_success_body
            [of ?w1 "''aws-token''" "\<lparr>StatusCode = 200, ReadAll = Inr notJSON\<rparr>" notJSON ?c]
    by (simp add: at_def mockServer_def notJSON_def StatusOK_def)
  have 2: "fst (GetToken ?c ?w2) =
             ([], Some (case asTokenResponse (tokenBody [] 3600) of
                    Inl err \<Rightarrow> ''failed to parse token exchange response: '' @ err
                  | Inr _ \<Rightarrow> ''token exchange response missing access_token''))
           \<and> fst (snd (GetToken ?c ?w2)) = ?c"
    using n2 exchangeToken_invalid_success_body
            [of ?w2 "''aws-token''" "\<lparr>StatusCode = 200, ReadAll = Inr (tokenBody [] 3600)\<rparr>"
                "tokenBody [] 3600" ?c]
    by (simp add: at_def mockServer_def tokenBody_def StatusOK_def)
  have 3: "snd (snd (fst (exchangeToken ?d (exchange ?w3)))) \<noteq> None"
    using exchangeToken_invalid_success_body
            [of ?w3 "''aws-token''" "\<lparr>StatusCode = 201, ReadAll = Inr (tokenBody [] 3600)\<rparr>"
                "tokenBody [] 3600" ?d]
    by (simp add: at_def mockServer_def tokenBody_def)
  have ex: "exchange ?w3 = mockServer 201 (tokenBody [] 3600)" by (simp add: at_def)
  from 1 2 3 show ?thesis unfolding ex by (simp add: notJSON_def tokenBody_def)
qed

section \<open>Successful refreshes\<close>

text \<open>
  Claim C7. A success response whose \<open>expires_in\<close> is zero or negative does not fail:
  \<open>exchangeToken\<close> returns 3600 seconds in its place, and \<open>GetToken\<close> stores the token
  with the expiry one hour (the default TTL, in nanoseconds) after the instant read
  when the new expiry is computed.
\<close>

theorem GetToken_default_ttl:
  assumes "awsGetWebIdentityToken (exchange w) = (awsToken, None)"
    and "newRequestErr (exchange w) = None"
    and "httpDo (exchange w) = Inr resp" and "ReadAll resp = Inr b"
    and "StatusCode resp = StatusOK"
    and "asTokenResponse b = Inr tokenResp" and "AccessToken tokenResp \<noteq> []"
    and "ExpiresIn tokenResp \<le>s 0"
    and "\<not> usable c (nowFast w)" and "\<not> usable c (nowRecheck w)"
  shows "fst (exchangeToken c (exchange w)) = (AccessToken tokenResp, 3600, None)
       \<and> fst (GetToken c w) = (AccessToken tokenResp, None)
       \<and> fst (snd (GetToken c w)) =
           c\<lparr>cachedToken := AccessToken tokenResp,
             tokenExpiry := nowStore w + 3600000000000\<rparr>
       \<and> sint defaultTokenTTL = 3600000000000"
proof -
  have x: "fst (exchangeToken c (exchange w)) = (AccessToken tokenResp, 3600, None)"
    using assms(1-8)
    by (simp add: exchangeToken_def Let_def defaultTokenTTLSeconds_def)
  then obtain evs where x': "exchangeToken c (exchange w) = ((AccessToken tokenResp, 3600, None), evs)"
    by (metis prod.collapse)
  have d: "sint (3600 * Second) = 3600000000000"
    by (simp add: Second_def Nanosecond_def)
  have t: "sint defaultTokenTTL = 3600000000000"
    by (simp add: defaultTokenTTL_def Hour_def Minute_def Second_def Nanosecond_def)
  have g: "GetToken c w =
      ((AccessToken tokenResp, None),
       c\<lparr>cachedToken := AccessToken tokenResp, tokenExpiry := nowStore w + 3600000000000\<rparr>, evs)"
    using x' d by (simp add: GetToken_slow [OF assms(9,10)] Add_def)
  from x g t show ?thesis by simp
qed

theorem GetToken_default_ttl_witness:
  "fst (GetToken (newTestTokenCache ''https://adb'') (at 1000 (mockServer 200 (tokenBody ''tok'' 0))))
     = (''tok'', None)
   \<and> tokenExpiry (fst (snd (GetToken (newTestTokenCache ''https://adb'')
        (at 1000 (mockServer 200 (tokenBody ''tok'' 0)))))) = 3600000001000
   \<and> tokenExpiry (fst (snd (GetToken (newTestTokenCache ''https://adb'')
        (at 1000 (mockServer 200 (tokenBody ''tok'' (- 5))))))) = 3600000001000"
proof -
  let ?c = "newTestTokenCache ''https://adb''"
  let ?w1 = "at 1000 (mockServer 200 (tokenBody ''tok'' 0))"
  let ?w2 = "at 1000 (mockServer 200 (tokenBody ''tok'' (- 5)))"
  have n1: "\<not> usable ?c (nowFast ?w1)" "\<not> usable ?c (nowRecheck ?w1)"
    and n2: "\<not> usable ?c (nowFast ?w2)" "\<not> usable ?c (nowRecheck ?w2)"
    by (simp_all add: run_defs fixture_defs)
  have neg: "(- 5 :: 64 word) \<le>s 0" by (simp add: word_sle_eq)
  have 1: "fst (GetToken ?c ?w1) = (''tok'', None) \<and>
           fst (snd (GetToken ?c ?w1)) =
             ?c\<lparr>cachedToken := ''tok'', tokenExpiry := nowStore ?w1 + 3600000000000\<rparr>"
    using GetToken_default_ttl
            [of ?w1 "''aws-token''" "\<lparr>StatusCode = 200, ReadAll = Inr (tokenBody ''tok'' 0)\<rparr>"
                "tokenBody ''tok'' 0"
                "\<lparr>AccessToken = ''tok'', TokenType = ''Bearer'', ExpiresIn = 0\<rparr>" ?c] n1
    by (simp add: at_def mockServer_def tokenBody_def StatusOK_def)
  have 2: "fst (snd (GetToken ?c ?w2)) =
             ?c\<lparr>cachedToken := ''tok'', tokenExpiry := nowStore ?w2 + 3600000000000\<rparr>"
    using GetToken_default_ttl
            [of ?w2 "''aws-token''" "\<lparr>StatusCode = 200, ReadAll = Inr (tokenBody ''tok'' (- 5))\<rparr>"
                "tokenBody ''tok'' (- 5)"
                "\<lparr>AccessToken = ''tok'', TokenType = ''Bearer'', ExpiresIn = - 5\<rparr>" ?c] n2 neg
    by (simp add: at_def mockServer_def tokenBody_def StatusOK_def)
  from 1 2 show ?thesis by (simp add: at_def)
qed

text \<open>
  Claim C9. Whenever \<open>GetToken\<close> returns a \<open>nil\<close> error, the token it returns is not
  empty, on the fast path, on the second check and after an exchange.
\<close>

theorem GetToken_nil_error_nonempty:
  "snd (fst (GetToken c w)) = None \<Longrightarrow> fst (fst (GetToken c w)) \<noteq> []"
proof -
  assume ok: "snd (fst (GetToken c w)) = None"
  obtain tok n e evs where x: "exchangeToken c (exchange w) = ((tok, n, e), evs)"
    by (metis prod.exhaust)
  have ne: "e = None \<Longrightarrow> tok \<noteq> []"
    using exchangeToken_ok_nonempty x by blast
  show ?thesis
    using ok x ne
    by (auto simp: GetToken_def fastPath_def refresh_def afterDo_def usable_def Let_def
          split: if_splits option.splits prod.splits)
qed

theorem GetToken_nil_error_nonempty_witness:
  "snd (fst (GetToken (newTestTokenCache ''https://adb'')
               (at 0 (mockServer 200 (tokenBody ''tok-abc'' 3600))))) = None
   \<and> fst (fst (GetToken (newTestTokenCache ''https://adb'')
               (at 0 (mockServer 200 (tokenBody ''tok-abc'' 3600))))) \<noteq> []"
proof -
  let ?c = "newTestTokenCache ''https://adb''"
  let ?w = "at 0 (mockServer 200 (tokenBody ''tok-abc'' 3600))"
  have ok: "snd (fst (GetToken ?c ?w)) = None"
    by (simp add: run_defs fixture_defs)
  from ok GetToken_nil_error_nonempty [OF ok] show ?thesis by blast
qed

section \<open>The round tripper leaves the original request alone\<close>

lemma Clone_Some:
  assumes "Header (requests h ! req) = Some q"
  shows "Clone h req =
           (\<lparr>requests = requests h @ [(requests h ! req)\<lparr>Header := Some (length (headers h))\<rparr>],
             headers = headers h @ [headers h ! q]\<rparr>,
            length (requests h))"
  using assms by (simp add: Clone_def Let_def)

lemma Header_Set_clone:
  "Header_Set \<lparr>requests = rs @ [r\<lparr>Header := Some (length hs)\<rparr>], headers = hs @ [m]\<rparr>
      (length rs) k v =
   Some \<lparr>requests = rs @ [r\<lparr>Header := Some (length hs)\<rparr>], headers = hs @ [m(k \<mapsto> [v])]\<rparr>"
  by (simp add: Header_Set_def)

lemma RoundTrip_forward:
  assumes "req < length (requests h)" and "Header (requests h ! req) = Some q"
    and "obtainToken e w = ((token, None), e', evs)"
  shows "RoundTrip base e w h req =
     (case base \<lparr>requests = requests h @ [(requests h ! req)\<lparr>Header := Some (length (headers h))\<rparr>],
               headers = headers h @ [(headers h ! q)(''Authorization'' \<mapsto> [''Bearer '' @ token])]\<rparr>
              (length (requests h)) of
        (h3, res) \<Rightarrow> (Some res, e', h3, evs))"
  using assms by (simp add: RoundTrip_def Clone_Some Header_Set_clone)

lemma keepsOthers_clone:
  assumes k: "keepsOthers base" and r: "req < length rs" and q: "q < length hs"
  shows "requests (fst (base \<lparr>requests = rs @ [x\<lparr>Header := Some (length hs)\<rparr>], headers = hs @ [m]\<rparr>
                         (length rs))) ! req = rs ! req"
    and "headers (fst (base \<lparr>requests = rs @ [x\<lparr>Header := Some (length hs)\<rparr>], headers = hs @ [m]\<rparr>
                         (length rs))) ! q = hs ! q"
proof -
  let ?h = "\<lparr>requests = rs @ [x\<lparr>Header := Some (length hs)\<rparr>], headers = hs @ [m]\<rparr>"
  from k have a: "\<forall>p < length (requests ?h). p \<noteq> length rs \<longrightarrow>
           requests (fst (base ?h (length rs))) ! p = requests ?h ! p"
    and b: "\<forall>q < length (headers ?h). Header (requests ?h ! length rs) \<noteq> Some q \<longrightarrow>
           headers (fst (base ?h (length rs))) ! q = headers ?h ! q"
    unfolding keepsOthers_def by blast+
  from a r show "requests (fst (base ?h (length rs))) ! req = rs ! req"
    by (simp add: nth_append)
  from b q show "headers (fst (base ?h (length rs))) ! q = hs ! q"
    by (simp add: nth_append)
qed

lemma keepsOthers_backend: "keepsOthers backend"
  by (simp add: keepsOthers_def backend_def)

text \<open>
  Claim C8. For a request in the store whose header map, if it has one, is in the store,
  and a base round tripper that changes no object other than the request it is handed
  and that request's header map: after \<open>RoundTrip\<close>, whatever its outcome, the original
  request object and the header map it refers to are what they were before. When a token
  was obtained and the original has a header map, the base round tripper is handed a new
  request object whose header is a new map: the entries of the original's, with
  \<open>Authorization\<close> set to \<open>Bearer\<close> and the token.
\<close>

theorem RoundTrip_original_unchanged:
  assumes "req < length (requests h)"
    and "\<forall>q. Header (requests h ! req) = Some q \<longrightarrow> q < length (headers h)"
    and "keepsOthers base"
  shows "requests (fst (snd (snd (RoundTrip base e w h req)))) ! req = requests h ! req
       \<and> (\<forall>q. Header (requests h ! req) = Some q \<longrightarrow>
            headers (fst (snd (snd (RoundTrip base e w h req)))) ! q = headers h ! q)
       \<and> (\<forall>q token e' evs.
            Header (requests h ! req) = Some q \<and> obtainToken e w = ((token, None), e', evs) \<longrightarrow>
            RoundTrip base e w h req =
              (case base
                      \<lparr>requests =
                         requests h @ [(requests h ! req)\<lparr>Header := Some (length (headers h))\<rparr>],
                       headers =
                         headers h @
                         [(headers h ! q)(''Authorization'' \<mapsto> [''Bearer '' @ token])]\<rparr>
                      (length (requests h)) of
                 (h3, res) \<Rightarrow> (Some res, e', h3, evs)))"
proof -
  let ?h' = "fst (snd (snd (RoundTrip base e w h req)))"
  obtain token err e' evs where ot: "obtainToken e w = ((token, err), e', evs)"
    by (metis prod.exhaust)
  have fw: "RoundTrip base e w h req =
              (case base
                      \<lparr>requests =
                         requests h @ [(requests h ! req)\<lparr>Header := Some (length (headers h))\<rparr>],
                       headers =
                         headers h @
                         [(headers h ! q)(''Authorization'' \<mapsto> [''Bearer '' @ token])]\<rparr>
                      (length (requests h)) of
                 (h3, res) \<Rightarrow> (Some res, e', h3, evs))"
    if "Header (requests h ! req) = Some q" and "obtainToken e w = ((token, None), e', evs)"
    for q token e' evs
    using assms(1) that by (rule RoundTrip_forward)
  have keep: "requests ?h' ! req = requests h ! req \<and>
              (\<forall>q. Header (requests h ! req) = Some q \<longrightarrow> headers ?h' ! q = headers h ! q)"
  proof (cases err)
    case (Some er)
    with ot assms(1) show ?thesis by (simp add: RoundTrip_def)
  next
    case None
    show ?thesis
    proof (cases "Header (requests h ! req)")
      case hn: None
      with ot \<open>err = None\<close> assms(1) show ?thesis
        by (simp add: RoundTrip_def Clone_def Header_Set_def Let_def nth_append)
    next
      case (Some q)
      from assms(2) Some have ql: "q < length (headers h)" by blast
      from ot \<open>err = None\<close> have ot': "obtainToken e w = ((token, None), e', evs)" by simp
      have "?h' = fst (base
                      \<lparr>requests =
                         requests h @ [(requests h ! req)\<lparr>Header := Some (length (headers h))\<rparr>],
                       headers =
                         headers h @
                         [(headers h ! q)(''Authorization'' \<mapsto> [''Bearer '' @ token])]\<rparr>
                      (length (requests h)))"
        by (simp add: fw [OF Some ot'] split: prod.splits)
      then show ?thesis
        using Some keepsOthers_clone [OF assms(3) assms(1) ql] by simp
    qed
  qed
  from keep fw show ?thesis by blast
qed

theorem RoundTrip_original_unchanged_witness:
  "keepsOthers backend
   \<and> requests (fst (snd (snd (RoundTrip backend (staticExt ''tok'')
        (at 0 (mockServer 200 (tokenBody ''unused'' 0))) origStore 0)))) ! 0
       = \<lparr>Method = ''GET'', URL = ''http://backend'', Header = Some 0\<rparr>
   \<and> headers (fst (snd (snd (RoundTrip backend (staticExt ''tok'')
        (at 0 (mockServer 200 (tokenBody ''unused'' 0))) origStore 0)))) ! 0
       = [''X-Custom'' \<mapsto> [''original'']]
   \<and> RoundTrip backend (staticExt ''tok'')
        (at 0 (mockServer 200 (tokenBody ''unused'' 0))) origStore 0
       = (Some (Some 200, None), staticExt ''tok'',
          \<lparr>requests =
             [\<lparr>Method = ''GET'', URL = ''http://backend'', Header = Some 0\<rparr>,
              \<lparr>Method = ''GET'', URL = ''http://backend'', Header = Some 1\<rparr>],
           headers =
             [[''X-Custom'' \<mapsto> [''original'']],
              [''X-Custom'' \<mapsto> [''original''], ''Authorization'' \<mapsto> [''Bearer tok'']]]\<rparr>,
          [])
   \<and> fst (RoundTrip backend (fedExt (newTestTokenCache ''https://adb''))
        (at 0 (mockServer 200 (tokenBody ''tok-abc'' 3600))) origStore 0)
       = Some (Some 200, None)
   \<and> headers (fst (snd (snd (RoundTrip backend (fedExt (newTestTokenCache ''https://adb''))
        (at 0 (mockServer 200 (tokenBody ''tok-abc'' 3600))) origStore 0))))
       = [[''X-Custom'' \<mapsto> [''original'']],
          [''X-Custom'' \<mapsto> [''original''], ''Authorization'' \<mapsto> [''Bearer tok-abc'']]]"
proof -
  let ?w = "at 0 (mockServer 200 (tokenBody ''unused'' 0))"
  let ?w' = "at 0 (mockServer 200 (tokenBody ''tok-abc'' 3600))"
  let ?e = "staticExt ''tok''"
  let ?f = "fedExt (newTestTokenCache ''https://adb'')"
  have r: "0 < length (requests origStore)"
    and q: "\<forall>q. Header (requests origStore ! 0) = Some q \<longrightarrow> q < length (headers origStore)"
    and hq: "Header (requests origStore ! 0) = Some 0"
    by (simp_all add: origStore_def)
  note T = RoundTrip_original_unchanged [OF r q keepsOthers_backend]
  have ot: "obtainToken ?e ?w = ((''tok'', None), ?e, [])"
    by (simp add: obtainToken_def staticExt_def)
  obtain c' evs where ot': "obtainToken ?f ?w' = ((''tok-abc'', None), ?f\<lparr>cache := Some c'\<rparr>, evs)"
    by (simp add: obtainToken_def fedExt_def run_defs fixture_defs)
  from T [of ?e ?w] hq
  have 1: "requests (fst (snd (snd (RoundTrip backend ?e ?w origStore 0)))) ! 0 = requests origStore ! 0"
    and 2: "headers (fst (snd (snd (RoundTrip backend ?e ?w origStore 0)))) ! 0 = headers origStore ! 0"
    by blast+
  from T [of ?e ?w] hq ot
  have 3: "RoundTrip backend ?e ?w origStore 0 =
              (case backend
                      \<lparr>requests =
                         requests origStore @
                         [(requests origStore ! 0)\<lparr>Header := Some (length (headers origStore))\<rparr>],
                       headers =
                         headers origStore @
                         [(headers origStore ! 0)(''Authorization'' \<mapsto> [''Bearer '' @ ''tok''])]\<rparr>
                      (length (requests origStore)) of
                 (h3, res) \<Rightarrow> (Some res, ?e, h3, []))"
    by blast
  from T [of ?f ?w'] hq ot'
  have 4: "RoundTrip backend ?f ?w' origStore 0 =
              (case backend
                      \<lparr>requests =
                         requests origStore @
                         [(requests origStore ! 0)\<lparr>Header := Some (length (headers origStore))\<rparr>],
                       headers =
                         headers origStore @
                         [(headers origStore ! 0)(''Authorization'' \<mapsto> [''Bearer '' @ ''tok-abc''])]\<rparr>
                      (length (requests origStore)) of
                 (h3, res) \<Rightarrow> (Some res, ?f\<lparr>cache := Some c'\<rparr>, h3, evs))"
    by blast
  from keepsOthers_backend 1 2 3 4 show ?thesis
    by (simp add: origStore_def backend_def)
qed

section \<open>The identity provider's cache\<close>

text \<open>
  Claim C10. \<open>GetWebIdentityToken\<close> answers from its cache, without a request to STS,
  exactly when the cached identity token is non-empty and the instant is more than 30
  seconds before its expiry; the function has no other buffer, and no configuration
  reaches it. Otherwise it makes one request to STS, and when that returns a non-empty
  token, the token is returned and cached with the expiration STS sent or, when STS sent
  none, with the instant read at that point plus 5 minutes.
\<close>

theorem GetWebIdentityToken_expiry:
  "(STSTokenProvider.cachedToken p \<noteq> [] \<and>
      stsNowCheck w < STSTokenProvider.tokenExpiry p - 30000000000 \<longrightarrow>
      GetWebIdentityToken p w = ((STSTokenProvider.cachedToken p, None), p, 0))
   \<and> (\<not> (STSTokenProvider.cachedToken p \<noteq> [] \<and>
          stsNowCheck w < STSTokenProvider.tokenExpiry p - 30000000000) \<longrightarrow>
      snd (snd (GetWebIdentityToken p w)) = 1 \<and>
      (\<forall>output tok.
         stsGetWebIdentityToken w = Inr output \<and> WebIdentityToken output = Some tok \<and> tok \<noteq> [] \<longrightarrow>
         fst (GetWebIdentityToken p w) = (tok, None) \<and>
         STSTokenProvider.cachedToken (fst (snd (GetWebIdentityToken p w))) = tok \<and>
         STSTokenProvider.tokenExpiry (fst (snd (GetWebIdentityToken p w))) =
           (case Expiration output of
              Some e \<Rightarrow> e
            | None \<Rightarrow> stsNowStore w + 300000000000)))"
proof -
  have b: "sint (- stsExpiryBuffer) = - 30000000000"
    by (simp add: stsExpiryBuffer_def Second_def Nanosecond_def)
  have m: "sint (5 * Minute) = 300000000000"
    by (simp add: Minute_def Second_def Nanosecond_def)
  show ?thesis
    by (auto simp: GetWebIdentityToken_def Before_def Add_def b m
          split: sum.splits option.splits)
qed

theorem GetWebIdentityToken_expiry_witness:
  "GetWebIdentityToken newProvider
     \<lparr>stsNowCheck = 1000,
      stsGetWebIdentityToken = Inr \<lparr>WebIdentityToken = Some ''jwt'', Expiration = Some 777\<rparr>,
      stsNowStore = 2000\<rparr>
     = ((''jwt'', None),
        \<lparr>STSTokenProvider.cachedToken = ''jwt'', STSTokenProvider.tokenExpiry = 777\<rparr>, 1)
   \<and> GetWebIdentityToken newProvider
     \<lparr>stsNowCheck = 1000,
      stsGetWebIdentityToken = Inr \<lparr>WebIdentityToken = Some ''jwt'', Expiration = None\<rparr>,
      stsNowStore = 2000\<rparr>
     = ((''jwt'', None),
        \<lparr>STSTokenProvider.cachedToken = ''jwt'', STSTokenProvider.tokenExpiry = 300000002000\<rparr>, 1)
   \<and> GetWebIdentityToken
       \<lparr>STSTokenProvider.cachedToken = ''jwt'', STSTokenProvider.tokenExpiry = 100000000000\<rparr>
       \<lparr>stsNowCheck = 69999999999, stsGetWebIdentityToken = Inl ''unreachable'', stsNowStore = 0\<rparr>
     = ((''jwt'', None),
        \<lparr>STSTokenProvider.cachedToken = ''jwt'', STSTokenProvider.tokenExpiry = 100000000000\<rparr>, 0)
   \<and> snd (snd (GetWebIdentityToken
       \<lparr>STSTokenProvider.cachedToken = ''jwt'', STSTokenProvider.tokenExpiry = 100000000000\<rparr>
       \<lparr>stsNowCheck = 70000000000, stsGetWebIdentityToken = Inl ''unreachable'', stsNowStore = 0\<rparr>))
     = 1"
proof -
  let ?w1 = "\<lparr>stsNowCheck = 1000,
      stsGetWebIdentityToken = Inr \<lparr>WebIdentityToken = Some ''jwt'', Expiration = Some 777\<rparr>,
      stsNowStore = 2000\<rparr>"
  let ?w2 = "\<lparr>stsNowCheck = 1000,
      stsGetWebIdentityToken = Inr \<lparr>WebIdentityToken = Some ''jwt'', Expiration = None\<rparr>,
      stsNowStore = 2000\<rparr>"
  let ?p = "\<lparr>STSTokenProvider.cachedToken = ''jwt'', STSTokenProvider.tokenExpiry = 100000000000\<rparr>"
  let ?w3 = "\<lparr>stsNowCheck = 69999999999, stsGetWebIdentityToken = Inl ''unreachable'', stsNowStore = 0\<rparr>"
  let ?w4 = "\<lparr>stsNowCheck = 70000000000, stsGetWebIdentityToken = Inl ''unreachable'', stsNowStore = 0\<rparr>"
  have s: "snd (snd (GetWebIdentityToken newProvider w)) = 1" for w
    by (simp add: GetWebIdentityToken_def newProvider_def split: sum.splits option.splits)
  have u: "fst (snd (GetWebIdentityToken newProvider w)) =
      \<lparr>STSTokenProvider.cachedToken = STSTokenProvider.cachedToken (fst (snd (GetWebIdentityToken newProvider w))),
       STSTokenProvider.tokenExpiry = STSTokenProvider.tokenExpiry (fst (snd (GetWebIdentityToken newProvider w)))\<rparr>" for w
    by simp
  have 1: "fst (GetWebIdentityToken newProvider ?w1) = (''jwt'', None) \<and>
        STSTokenProvider.cachedToken (fst (snd (GetWebIdentityToken newProvider ?w1))) = ''jwt'' \<and>
        STSTokenProvider.tokenExpiry (fst (snd (GetWebIdentityToken newProvider ?w1))) = 777"
    using GetWebIdentityToken_expiry [of newProvider ?w1]
    by (simp add: newProvider_def)
  have 2: "fst (GetWebIdentityToken newProvider ?w2) = (''jwt'', None) \<and>
        STSTokenProvider.cachedToken (fst (snd (GetWebIdentityToken newProvider ?w2))) = ''jwt'' \<and>
        STSTokenProvider.tokenExpiry (fst (snd (GetWebIdentityToken newProvider ?w2))) = 300000002000"
    using GetWebIdentityToken_expiry [of newProvider ?w2]
    by (simp add: newProvider_def)
  have 3: "GetWebIdentityToken ?p ?w3 = ((''jwt'', None), ?p, 0)"
    using GetWebIdentityToken_expiry [of ?p ?w3] by simp
  have 4: "snd (snd (GetWebIdentityToken ?p ?w4)) = 1"
    using GetWebIdentityToken_expiry [of ?p ?w4] by simp
  have e1: "GetWebIdentityToken newProvider ?w1 = ((''jwt'', None),
        \<lparr>STSTokenProvider.cachedToken = ''jwt'', STSTokenProvider.tokenExpiry = 777\<rparr>, 1)"
    using 1 s [of ?w1] u [of ?w1] by (metis prod.collapse)
  have e2: "GetWebIdentityToken newProvider ?w2 = ((''jwt'', None),
        \<lparr>STSTokenProvider.cachedToken = ''jwt'', STSTokenProvider.tokenExpiry = 300000002000\<rparr>, 1)"
    using 2 s [of ?w2] u [of ?w2] by (metis prod.collapse)
  from e1 e2 3 4 show ?thesis by blast
qed

end
